theory Spec2Isabelle
  imports Main "HOL-Library.Word"
begin

unbundle bit_operations_syntax

section \<open>Data of the program\<close>

text \<open>
  The program is one Node.js script, \<^verbatim>\<open>signature.js\<close>. It reads files, signs or
  verifies with Node's \<^verbatim>\<open>crypto\<close> module, writes a file, prints to the console and
  exits. A Buffer is a list of bytes; a JavaScript string is a \<^typ>\<open>string\<close>.
\<close>

type_synonym byte = "8 word"
type_synonym buffer = "byte list"

text \<open>
  The values that Node hands to a callback as \<^verbatim>\<open>err\<close>, or throws. The script does
  not look inside them: it only tests \<^verbatim>\<open>err\<close> for truthiness and prints it.
\<close>

datatype error = IOError | KeyParseError | SigningError | TypeError

text \<open>An argument of \<^verbatim>\<open>console.log\<close>.\<close>

datatype logval = S string | E error | B bool

text \<open>
  What a run does, in the order in which it does it. \<open>FsRead p\<close> is the completion
  of \<^verbatim>\<open>fs.readFile(p, ...)\<close>, the moment its callback is called. \<open>SignFinal\<close> is
  the call \<^verbatim>\<open>signer.sign(privateKey)\<close> with what it returned or threw, and
  \<open>VerifyFinal\<close> the call \<^verbatim>\<open>verifier.verify(publicKey, signature, encoding)\<close> with
  what it returned or threw.
\<close>

datatype event =
    ConsoleLog "logval list"
  | FsRead string
  | FsWrite string buffer
  | FsWriteFailed string
  | CreateSign string
  | SignUpdate buffer
  | SignFinal buffer "error + buffer"
  | CreateVerify string
  | VerifyUpdate buffer
  | VerifyFinal buffer string string "error + bool"
  | ProcessExit int

text \<open>
  How the process ends: \<^verbatim>\<open>process.exit(code)\<close> was called, or the script ran to its
  end with no callback pending, or an exception was thrown that nothing catches.
\<close>

datatype outcome = Exit int | Completed | Uncaught error

text \<open>
  The exit status the shell sees. \<^verbatim>\<open>process.exit(-1)\<close> is status 255 on POSIX;
  a script that runs to its end has status 0; Node ends a process on an uncaught
  exception with a status that is not zero (1 in current versions).
\<close>

fun exit_status :: "outcome \<Rightarrow> int" where
  "exit_status (Exit code) = code mod 256"
| "exit_status Completed = 0"
| "exit_status (Uncaught e) = 1"

text \<open>
  The world outside the process: the files that can be read, with their bytes; the
  paths that can be written; and the randomness the operating system would give to
  a signature scheme that asks for it.
\<close>

record world =
  files :: "string \<rightharpoonup> buffer"
  writable :: "string \<Rightarrow> bool"
  entropy :: nat

text \<open>
  The parts of Node that the script calls and whose code is not the script's: the
  signing and verification primitives behind \<^verbatim>\<open>crypto.createSign\<close> and
  \<^verbatim>\<open>crypto.createVerify\<close>, and the UTF-8 decoder behind
  \<^verbatim>\<open>fs.readFile(path, 'utf8', ...)\<close>. They are parameters of the model.
  \<open>sign_primitive algorithm data key entropy\<close> is the signature or the exception
  thrown; \<open>verify_primitive algorithm data key signature\<close> is the verdict or the
  exception thrown.
\<close>

record node =
  sign_primitive :: "string \<Rightarrow> buffer \<Rightarrow> buffer \<Rightarrow> nat \<Rightarrow> error + buffer"
  verify_primitive :: "string \<Rightarrow> buffer \<Rightarrow> buffer \<Rightarrow> buffer \<Rightarrow> error + bool"
  utf8_decode :: "buffer \<Rightarrow> string"

section \<open>Buffer encodings\<close>

text \<open>\<^verbatim>\<open>buffer.toString('hex')\<close>: two lower-case digits for each byte.\<close>

definition hex_digit :: "byte \<Rightarrow> char" where
  "hex_digit v = ''0123456789abcdef'' ! unat (v AND 15)"

fun toString_hex :: "buffer \<Rightarrow> string" where
  "toString_hex [] = []"
| "toString_hex (b # bs) = hex_digit (drop_bit 4 b) # hex_digit b # toString_hex bs"

text \<open>
  \<^verbatim>\<open>buffer.toString('base64')\<close>: the standard alphabet, three bytes to four
  characters, the last group padded with \<^verbatim>\<open>=\<close>.
\<close>

definition base64_table :: string where
  "base64_table = ''ABCDEFGHIJKLMNOPQRSTUVWXYZabcdefghijklmnopqrstuvwxyz0123456789+/''"

definition base64_char :: "byte \<Rightarrow> char" where
  "base64_char v = base64_table ! unat (v AND 63)"

fun toString_base64 :: "buffer \<Rightarrow> string" where
  "toString_base64 [] = []"
| "toString_base64 [a] =
     [base64_char (drop_bit 2 a), base64_char (push_bit 4 (a AND 3)), CHR ''='', CHR ''='']"
| "toString_base64 [a, b] =
     [base64_char (drop_bit 2 a), base64_char (push_bit 4 (a AND 3) OR drop_bit 4 b),
      base64_char (push_bit 2 (b AND 15)), CHR ''='']"
| "toString_base64 (a # b # c # rest) =
     base64_char (drop_bit 2 a) # base64_char (push_bit 4 (a AND 3) OR drop_bit 4 b) #
     base64_char (push_bit 2 (b AND 15) OR drop_bit 6 c) # base64_char (c AND 63) #
     toString_base64 rest"

text \<open>
  Reading a string as base64, as Node does wherever a string comes with the
  encoding \<^verbatim>\<open>'base64'\<close>. The decoder is lenient: a character that is not in the
  alphabet is skipped, the first \<^verbatim>\<open>=\<close> ends the input, and no input is an error.
  \<open>unbase64\<close> is the value of a character (the URL-safe \<^verbatim>\<open>-\<close> and \<^verbatim>\<open>_\<close> count
  as \<^verbatim>\<open>+\<close> and \<^verbatim>\<open>/\<close>).
\<close>

definition unbase64 :: "char \<Rightarrow> byte option" where
  "unbase64 c =
     (let n = (of_char c :: nat) in
      if 65 \<le> n \<and> n \<le> 90 then Some (of_nat (n - 65))
      else if 97 \<le> n \<and> n \<le> 122 then Some (of_nat (n - 71))
      else if 48 \<le> n \<and> n \<le> 57 then Some (of_nat (n + 4))
      else if c = CHR ''+'' \<or> c = CHR ''-'' then Some 62
      else if c = CHR ''/'' \<or> c = CHR ''_'' then Some 63
      else None)"

fun base64_values :: "string \<Rightarrow> byte list" where
  "base64_values [] = []"
| "base64_values (c # cs) =
     (case unbase64 c of
        Some v \<Rightarrow> v # base64_values cs
      | None \<Rightarrow> if c = CHR ''='' then [] else base64_values cs)"

fun base64_groups :: "byte list \<Rightarrow> buffer" where
  "base64_groups (a # b # c # d # rest) =
     (push_bit 2 a OR drop_bit 4 b) # (push_bit 4 (b AND 15) OR drop_bit 2 c) #
     (push_bit 6 (c AND 3) OR d) # base64_groups rest"
| "base64_groups [a, b, c] =
     [push_bit 2 a OR drop_bit 4 b, push_bit 4 (b AND 15) OR drop_bit 2 c]"
| "base64_groups [a, b] = [push_bit 2 a OR drop_bit 4 b]"
| "base64_groups _ = []"

definition from_base64 :: "string \<Rightarrow> buffer" where
  "from_base64 s = base64_groups (base64_values s)"

text \<open>
  Writing a string as UTF-8, the default of \<^verbatim>\<open>fs.writeFile\<close>: a character below
  128 is one byte, a character from 128 to 255 is two.
\<close>

fun utf8_encode :: "string \<Rightarrow> buffer" where
  "utf8_encode [] = []"
| "utf8_encode (c # cs) =
     (if (of_char c :: nat) < 128 then [of_char c]
      else [192 OR drop_bit 6 (of_char c), 128 OR (of_char c AND 63)]) @ utf8_encode cs"

text \<open>
  Reading bytes as UTF-8, as \<^verbatim>\<open>fs.readFile(path, 'utf8', ...)\<close> does. Bytes that are
  all below 128 are the characters with these codes; what Node makes of any other
  input is the parameter \<open>utf8_decode\<close>.
\<close>

definition utf8_toString :: "node \<Rightarrow> buffer \<Rightarrow> string" where
  "utf8_toString N b =
     (if list_all (\<lambda>x. x < 128) b then map (\<lambda>x. char_of (unat x)) b else utf8_decode N b)"


section \<open>Processes\<close>

text \<open>
  A piece of the script that runs from some point to the end of the process: from
  the world it finds, the events in order, how the process ends, and the world it
  leaves. A callback is a function into such a piece, and a Node call that takes a
  callback takes it as its last argument here too, so that the model keeps the
  nesting of the script.
\<close>

type_synonym proc = "world \<Rightarrow> event list \<times> outcome \<times> world"

definition run_trace :: "proc \<Rightarrow> world \<Rightarrow> event list" where
  "run_trace p w = fst (p w)"

definition run_outcome :: "proc \<Rightarrow> world \<Rightarrow> outcome" where
  "run_outcome p w = fst (snd (p w))"

definition run_world :: "proc \<Rightarrow> world \<Rightarrow> world" where
  "run_world p w = snd (snd (p w))"

definition emit :: "event \<Rightarrow> proc \<Rightarrow> proc" where
  "emit e k w = (case k w of (t, r) \<Rightarrow> (e # t, r))"

text \<open>Nothing is left to run and no callback is pending: the process ends.\<close>

definition end_of_script :: proc where
  "end_of_script w = ([], Completed, w)"

text \<open>An exception that the script does not catch (it has no \<^verbatim>\<open>try\<close>).\<close>

definition throw :: "error \<Rightarrow> proc" where
  "throw e w = ([], Uncaught e, w)"

text \<open>\<^verbatim>\<open>process.exit(code)\<close> ends the process at once; nothing after it runs.\<close>

definition process_exit :: "int \<Rightarrow> proc" where
  "process_exit code w = ([ProcessExit code], Exit code, w)"

definition console_log :: "logval list \<Rightarrow> proc \<Rightarrow> proc" where
  "console_log args k = emit (ConsoleLog args) k"

text \<open>
  A callback of \<^verbatim>\<open>fs.readFile\<close> gets \<^verbatim>\<open>(err, data)\<close>: an error and no data, or no
  error and the data. The script uses the data only where \<^verbatim>\<open>handleError(err)\<close> has
  let the run pass; \<open>defined\<close> takes the value out at that point. Using data that is
  \<^verbatim>\<open>undefined\<close> would throw a TypeError.
\<close>

definition defined :: "'a option \<Rightarrow> ('a \<Rightarrow> proc) \<Rightarrow> proc" where
  "defined v k = (case v of None \<Rightarrow> throw TypeError | Some x \<Rightarrow> k x)"

definition fs_readFile :: "string \<Rightarrow> (error option \<Rightarrow> buffer option \<Rightarrow> proc) \<Rightarrow> proc" where
  "fs_readFile path callback w =
     emit (FsRead path)
       (case files w path of
          None \<Rightarrow> callback (Some IOError) None
        | Some b \<Rightarrow> callback None (Some b)) w"

definition fs_readFile_utf8 ::
  "node \<Rightarrow> string \<Rightarrow> (error option \<Rightarrow> string option \<Rightarrow> proc) \<Rightarrow> proc" where
  "fs_readFile_utf8 N path callback w =
     emit (FsRead path)
       (case files w path of
          None \<Rightarrow> callback (Some IOError) None
        | Some b \<Rightarrow> callback None (Some (utf8_toString N b))) w"

definition fs_writeFile :: "string \<Rightarrow> string \<Rightarrow> (error option \<Rightarrow> proc) \<Rightarrow> proc" where
  "fs_writeFile path text callback w =
     (if writable w path
      then emit (FsWrite path (utf8_encode text)) (callback None)
             (w\<lparr>files := (files w)(path \<mapsto> utf8_encode text)\<rparr>)
      else emit (FsWriteFailed path) (callback (Some IOError)) w)"

text \<open>
  The objects of \<^verbatim>\<open>crypto.createSign\<close> and \<^verbatim>\<open>crypto.createVerify\<close>: the algorithm
  they were made for and the data given to \<^verbatim>\<open>update\<close> so far. \<^verbatim>\<open>sign\<close> and
  \<^verbatim>\<open>verify\<close> call the primitive; what the primitive throws is thrown by them.
\<close>

record hash_object =
  algorithm :: string
  updated :: buffer

definition crypto_createSign :: "string \<Rightarrow> (hash_object \<Rightarrow> proc) \<Rightarrow> proc" where
  "crypto_createSign alg k = emit (CreateSign alg) (k \<lparr>algorithm = alg, updated = []\<rparr>)"

definition signer_update :: "hash_object \<Rightarrow> buffer \<Rightarrow> (hash_object \<Rightarrow> proc) \<Rightarrow> proc" where
  "signer_update signer d k = emit (SignUpdate d) (k (signer\<lparr>updated := updated signer @ d\<rparr>))"

definition signer_sign :: "node \<Rightarrow> hash_object \<Rightarrow> buffer \<Rightarrow> (buffer \<Rightarrow> proc) \<Rightarrow> proc" where
  "signer_sign N signer privateKey k w =
     (let r = sign_primitive N (algorithm signer) (updated signer) privateKey (entropy w) in
      emit (SignFinal privateKey r)
        (case r of
           Inl e \<Rightarrow> throw e
         | Inr sg \<Rightarrow> k sg) w)"

definition crypto_createVerify :: "string \<Rightarrow> (hash_object \<Rightarrow> proc) \<Rightarrow> proc" where
  "crypto_createVerify alg k = emit (CreateVerify alg) (k \<lparr>algorithm = alg, updated = []\<rparr>)"

definition verifier_update :: "hash_object \<Rightarrow> buffer \<Rightarrow> (hash_object \<Rightarrow> proc) \<Rightarrow> proc" where
  "verifier_update verifier d k =
     emit (VerifyUpdate d) (k (verifier\<lparr>updated := updated verifier @ d\<rparr>))"

text \<open>
  \<^verbatim>\<open>verifier.verify(key, signature, 'base64')\<close>: the signature is a string, read
  as base64.
\<close>

definition verifier_verify_base64 ::
  "node \<Rightarrow> hash_object \<Rightarrow> buffer \<Rightarrow> string \<Rightarrow> (bool \<Rightarrow> proc) \<Rightarrow> proc" where
  "verifier_verify_base64 N verifier publicKey signature k =
     (let r = verify_primitive N (algorithm verifier) (updated verifier) publicKey
                (from_base64 signature) in
      emit (VerifyFinal publicKey signature ''base64'' r)
        (case r of
           Inl e \<Rightarrow> throw e
         | Inr valid \<Rightarrow> k valid))"

text \<open>
  \<^verbatim>\<open>new Buffer(x, 'binary')\<close> on what \<^verbatim>\<open>signer.sign\<close> returned: the same bytes in
  a Buffer of its own.
\<close>

definition new_Buffer_binary :: "buffer \<Rightarrow> buffer" where
  "new_Buffer_binary x = x"

section \<open>The script\<close>

definition SIGNATURE_ALGORITHM :: string where
  "SIGNATURE_ALGORITHM = ''RSA-SHA256''"

definition quoted :: "string \<Rightarrow> string" where
  "quoted path = [CHR 0x27] @ path @ [CHR 0x27]"

definition newline :: string where
  "newline = [CHR 0x0A]"

definition usage :: proc where
  "usage =
     console_log [S ''Usage:''] (
     console_log [S ''  node signature.js sign   [data file] [private key file] [signature output file]''] (
     console_log [S ''  node signature.js verify [data file] [signature file] [public key file]''] (
     process_exit (- 1))))"

definition handleError :: "error option \<Rightarrow> proc \<Rightarrow> proc" where
  "handleError err k =
     (case err of
        Some e \<Rightarrow> console_log [S ''Error'', E e] (process_exit (- 1))
      | None \<Rightarrow> k)"

definition sign :: "node \<Rightarrow> string \<Rightarrow> string \<Rightarrow> string \<Rightarrow> proc" where
  "sign N dataPath privateKeyPath signaturePath =
     console_log [S (''Loading data from '' @ quoted dataPath)] (
     fs_readFile dataPath (\<lambda>err data.
       handleError err (
       defined data (\<lambda>data.
       console_log [S (''Loading data from '' @ quoted privateKeyPath)] (
       fs_readFile privateKeyPath (\<lambda>err privateKey.
         handleError err (
         defined privateKey (\<lambda>privateKey.
         console_log [S ''Signing data''] (
         console_log [S (toString_hex data), S newline] (
         console_log [S ''Using private key''] (
         console_log [S (toString_hex privateKey), S newline] (
         crypto_createSign SIGNATURE_ALGORITHM (\<lambda>signer.
         signer_update signer data (\<lambda>signer.
         signer_sign N signer privateKey (\<lambda>raw.
         let signature = new_Buffer_binary raw in
         console_log [S ''Signature Bytes''] (
         console_log [S (toString_hex signature), S newline] (
         console_log [S ''Signature Encoded as Base64''] (
         let signature_b64 = toString_base64 signature in
         console_log [S signature_b64, S newline] (
         fs_writeFile signaturePath signature_b64 (\<lambda>err.
           console_log [S (''Base64 Signature saved to '' @ quoted signaturePath)] (
           end_of_script)))))))))))))))))))))"

definition verify :: "node \<Rightarrow> string \<Rightarrow> string \<Rightarrow> string \<Rightarrow> proc" where
  "verify N dataPath signaturePath publicKeyPath =
     console_log [S (''Loading data from '' @ quoted dataPath)] (
     fs_readFile dataPath (\<lambda>err data.
       handleError err (
       defined data (\<lambda>data.
       console_log [S (''Loading signature from '' @ quoted signaturePath)] (
       fs_readFile_utf8 N signaturePath (\<lambda>err signature.
         handleError err (
         defined signature (\<lambda>signature.
         console_log [S (''Loading public key from '' @ quoted publicKeyPath)] (
         fs_readFile publicKeyPath (\<lambda>err publicKey.
           handleError err (
           defined publicKey (\<lambda>publicKey.
           console_log [S ''Verifying signature''] (
           console_log [S signature, S newline] (
           console_log [S ''Over data''] (
           console_log [S (toString_hex data), S newline] (
           console_log [S ''Using public key''] (
           console_log [S (toString_hex publicKey), S newline] (
           crypto_createVerify SIGNATURE_ALGORITHM (\<lambda>verifier.
           verifier_update verifier data (\<lambda>verifier.
           verifier_verify_base64 N verifier publicKey signature (\<lambda>valid.
           console_log [S ''Signature valid?'', B valid] (
           process_exit (if valid then 0 else - 1)))))))))))))))))))))))"

definition processArgs :: "node \<Rightarrow> string list \<Rightarrow> proc" where
  "processArgs N argv =
     (if length argv = 6 \<and> argv ! 2 = ''sign''
      then sign N (argv ! 3) (argv ! 4) (argv ! 5)
      else if length argv = 6 \<and> argv ! 2 = ''verify''
      then verify N (argv ! 3) (argv ! 4) (argv ! 5)
      else usage)"

section \<open>Notions of the properties\<close>

text \<open>The events of a run other than console output.\<close>

fun is_log :: "event \<Rightarrow> bool" where
  "is_log (ConsoleLog args) = True"
| "is_log e = False"

definition effects :: "event list \<Rightarrow> event list" where
  "effects t = filter (\<lambda>e. \<not> is_log e) t"

text \<open>The reads of files and the steps of signing.\<close>

fun is_step :: "event \<Rightarrow> bool" where
  "is_step (FsRead p) = True"
| "is_step (CreateSign a) = True"
| "is_step (SignUpdate d) = True"
| "is_step (SignFinal k r) = True"
| "is_step e = False"

definition steps :: "event list \<Rightarrow> event list" where
  "steps t = filter is_step t"

text \<open>
  What is asked of Node's RSA-SHA256 primitives. The script cannot provide any of
  it: it is what "a valid key pair" and "produced with the private key paired with
  the public key" mean for the parameter.

  \<open>key_pair\<close>: signing any data with \<open>priv\<close> succeeds, and the signature is accepted
  with \<open>pub\<close> over the same data.
\<close>

definition key_pair :: "node \<Rightarrow> buffer \<Rightarrow> buffer \<Rightarrow> bool" where
  "key_pair N priv pub \<longleftrightarrow>
     (\<forall>d r. \<exists>sg. sign_primitive N ''RSA-SHA256'' d priv r = Inr sg \<and>
                  verify_primitive N ''RSA-SHA256'' d pub sg = Inr True)"



text \<open>
  \<open>deterministic_for\<close>: signing with the key \<open>k\<close> does not use the randomness (as
  RSA signing with PKCS#1 v1.5 padding; signing with an RSA-PSS key is salted).
\<close>

definition deterministic_for :: "node \<Rightarrow> buffer \<Rightarrow> bool" where
  "deterministic_for N k \<longleftrightarrow>
     (\<forall>d r r'. sign_primitive N ''RSA-SHA256'' d k r = sign_primitive N ''RSA-SHA256'' d k r')"



subsection \<open>A small instance, for the examples\<close>

text \<open>
  A stand-in for the primitives, small enough to compute with: a key is any
  non-empty buffer, the public key of a private key is its reverse, and the
  signature of data is the private key followed by the data. It knows one
  algorithm.
\<close>

definition toy_sign :: "string \<Rightarrow> buffer \<Rightarrow> buffer \<Rightarrow> nat \<Rightarrow> error + buffer" where
  "toy_sign alg d key r =
     (if alg \<noteq> ''RSA-SHA256'' then Inl SigningError
      else if key = [] then Inl KeyParseError
      else Inr (key @ d))"

definition toy_verify :: "string \<Rightarrow> buffer \<Rightarrow> buffer \<Rightarrow> buffer \<Rightarrow> error + bool" where
  "toy_verify alg d key sg =
     (if alg \<noteq> ''RSA-SHA256'' then Inl SigningError
      else if key = [] then Inl KeyParseError
      else Inr (sg = rev key @ d))"

definition toy_node :: node where
  "toy_node = \<lparr>sign_primitive = toy_sign, verify_primitive = toy_verify,
               utf8_decode = (\<lambda>b. [])\<rparr>"

text \<open>
  A second stand-in, salted: the signature of data is the private key, one byte of
  the randomness, and the data; verification accepts any salt.
\<close>

definition salted_sign :: "string \<Rightarrow> buffer \<Rightarrow> buffer \<Rightarrow> nat \<Rightarrow> error + buffer" where
  "salted_sign alg d key r =
     (if alg \<noteq> ''RSA-SHA256'' then Inl SigningError
      else if key = [] then Inl KeyParseError
      else Inr (key @ [of_nat r] @ d))"

definition salted_verify :: "string \<Rightarrow> buffer \<Rightarrow> buffer \<Rightarrow> buffer \<Rightarrow> error + bool" where
  "salted_verify alg d key sg =
     (if alg \<noteq> ''RSA-SHA256'' then Inl SigningError
      else if key = [] then Inl KeyParseError
      else Inr (take (length key) sg = rev key \<and> drop (Suc (length key)) sg = d \<and>
                length key < length sg))"

definition salted_node :: node where
  "salted_node = \<lparr>sign_primitive = salted_sign, verify_primitive = salted_verify,
                  utf8_decode = (\<lambda>b. [])\<rparr>"

definition toy_world :: world where
  "toy_world =
     \<lparr>files = [''data'' \<mapsto> [3, 4], ''key.pem'' \<mapsto> [1, 2], ''key.crt'' \<mapsto> [2, 1]],
      writable = (\<lambda>p. p = ''data.sig''),
      entropy = 0\<rparr>"

text \<open>The world after \<^verbatim>\<open>node signature.js sign data key.pem data.sig\<close>.\<close>

definition signed_world :: world where
  "signed_world = run_world (sign toy_node ''data'' ''key.pem'' ''data.sig'') toy_world"

text \<open>
  The same world with bit \<open>n\<close> of byte \<open>i\<close> of a file flipped (the same world when the
  file has no byte \<open>i\<close>).
\<close>

definition tamper :: "string \<Rightarrow> nat \<Rightarrow> nat \<Rightarrow> world \<Rightarrow> world" where
  "tamper path i n w =
     (case files w path of
        None \<Rightarrow> w
      | Some b \<Rightarrow> w\<lparr>files := (files w)(path \<mapsto> b[i := flip_bit n (b ! i)])\<rparr>)"

section \<open>Round trip of the base64 rendering\<close>

lemma unbase64_base64_char: "unbase64 (base64_char v) = Some (v AND 63)"
proof -
  have "unat (v AND 63) \<le> unat (63 :: byte)"
    by (rule word_and_le1 [THEN word_le_nat_alt [THEN iffD1]])
  then have b: "unat (v AND 63) < 64" by simp
  have "\<forall>n<64. unbase64 (base64_table ! n) = Some (of_nat n)"
    by (simp add: All_less_Suc2 unbase64_def base64_table_def numeral_nat)
  with b have "unbase64 (base64_table ! unat (v AND 63)) = Some (of_nat (unat (v AND 63)))"
    by blast
  then show ?thesis by (simp add: base64_char_def)
qed

lemma unbase64_pad: "unbase64 CHR ''='' = None"
  by (simp add: unbase64_def)

lemma mask_numerals:
  "(63::byte) = mask 6" "(15::byte) = mask 4" "(3::byte) = mask 2"
  by (simp_all add: mask_eq_exp_minus_1)

lemma shift_back [simp]:
  "2 \<le> n \<Longrightarrow> Suc (Suc (n - 2)) = n"
  "4 \<le> n \<Longrightarrow> 4 + (n - 4) = n"
  "6 \<le> n \<Longrightarrow> 6 + (n - 6) = n"
  by simp_all

lemma first_byte:
  "push_bit 2 (drop_bit 2 a AND 63) OR drop_bit 4 (push_bit 4 (a AND 3) AND 63) = (a::byte)"
  (is "?l = ?r")
proof (rule bit_word_eqI)
  fix n assume "n < LENGTH(8)"
  then show "bit ?l n = bit ?r n"
    unfolding mask_numerals
    by (cases "n < 2"; cases "n < 4"; cases "n < 6") (auto simp: bit_simps not_less)
qed

lemma first_byte':
  "push_bit 2 (drop_bit 2 a AND 63) OR
   drop_bit 4 ((push_bit 4 (a AND 3) OR drop_bit 4 b) AND 63) = (a::byte)"
  (is "?l = ?r")
proof (rule bit_word_eqI)
  fix n assume "n < LENGTH(8)"
  then show "bit ?l n = bit ?r n"
    unfolding mask_numerals
    by (cases "n < 2"; cases "n < 4"; cases "n < 6") (auto simp: bit_simps not_less)
qed

lemma second_byte:
  "push_bit 4 (((push_bit 4 (a AND 3) OR drop_bit 4 b) AND 63) AND 15) OR
   drop_bit 2 (push_bit 2 (b AND 15) AND 63) = (b::byte)"
  (is "?l = ?r")
proof (rule bit_word_eqI)
  fix n assume "n < LENGTH(8)"
  then show "bit ?l n = bit ?r n"
    unfolding mask_numerals
    by (cases "n < 2"; cases "n < 4"; cases "n < 6") (auto simp: bit_simps not_less)
qed

lemma second_byte':
  "push_bit 4 (((push_bit 4 (a AND 3) OR drop_bit 4 b) AND 63) AND 15) OR
   drop_bit 2 ((push_bit 2 (b AND 15) OR drop_bit 6 c) AND 63) = (b::byte)"
  (is "?l = ?r")
proof (rule bit_word_eqI)
  fix n assume "n < LENGTH(8)"
  then show "bit ?l n = bit ?r n"
    unfolding mask_numerals
    by (cases "n < 2"; cases "n < 4"; cases "n < 6") (auto simp: bit_simps not_less)
qed

lemma third_byte:
  "push_bit 6 (((push_bit 2 (b AND 15) OR drop_bit 6 c) AND 63) AND 3) OR ((c AND 63) AND 63) =
   (c::byte)"
  (is "?l = ?r")
proof (rule bit_word_eqI)
  fix n assume "n < LENGTH(8)"
  then show "bit ?l n = bit ?r n"
    unfolding mask_numerals
    by (cases "n < 2"; cases "n < 4"; cases "n < 6") (auto simp: bit_simps not_less)
qed

lemma base64_values_encoded:
  "base64_groups (base64_values (toString_base64 bs)) = bs"
  by (induction bs rule: toString_base64.induct)
     (simp_all only: toString_base64.simps base64_values.simps base64_groups.simps
        unbase64_base64_char unbase64_pad option.case simp_thms if_True
        first_byte first_byte' second_byte second_byte' third_byte)

text \<open>
  C3. Reading as base64 the base64 rendering of any bytes gives these bytes back:
  \<open>decode (encode s) = s\<close> for every byte sequence \<open>s\<close>, where \<open>encode\<close> is
  \<^verbatim>\<open>signature.toString('base64')\<close> of the sign path and \<open>decode\<close> is the reading of
  the signature string by \<^verbatim>\<open>verifier.verify(publicKey, signature, 'base64')\<close>.
\<close>

theorem base64_round_trip: "from_base64 (toString_base64 s) = s"
  by (simp add: from_base64_def base64_values_encoded)

theorem base64_round_trip_witness:
  "from_base64 (toString_base64 [104, 101, 108, 108, 111]) = [104, 101, 108, 108, 111]"
  by (rule base64_round_trip)

subsection \<open>What the base64 reading does not see\<close>

text \<open>
  A character outside the alphabet is skipped wherever it stands, and nothing after
  the first \<^verbatim>\<open>=\<close> is read.
\<close>

lemma base64_values_skip:
  assumes "unbase64 c = None" "c \<noteq> CHR ''=''"
  shows "base64_values (xs @ c # ys) = base64_values (xs @ ys)"
  using assms by (induction xs) (simp_all split: option.split)

lemma base64_values_stop:
  "base64_values (xs @ CHR ''='' # ys) = base64_values xs"
  by (induction xs) (simp_all add: unbase64_pad split: option.split)

lemma from_base64_skip:
  assumes "unbase64 c = None" "c \<noteq> CHR ''=''"
  shows "from_base64 (xs @ c # ys) = from_base64 (xs @ ys)"
  using assms by (simp add: from_base64_def base64_values_skip)

lemma from_base64_stop: "from_base64 (xs @ CHR ''='' # ys) = from_base64 xs"
  by (simp add: from_base64_def base64_values_stop)

section \<open>Runs of the script\<close>

lemmas proc_defs =
  run_trace_def run_outcome_def run_world_def emit_def end_of_script_def throw_def
  process_exit_def console_log_def defined_def fs_readFile_def fs_readFile_utf8_def
  fs_writeFile_def crypto_createSign_def signer_update_def signer_sign_def
  crypto_createVerify_def verifier_update_def verifier_verify_base64_def
  new_Buffer_binary_def handleError_def effects_def Let_def

lemma sign_data_unreadable:
  assumes "files w dataPath = None"
  shows "effects (run_trace (sign N dataPath privateKeyPath signaturePath) w) =
           [FsRead dataPath, ProcessExit (- 1)]"
    and "run_outcome (sign N dataPath privateKeyPath signaturePath) w = Exit (- 1)"
    and "run_world (sign N dataPath privateKeyPath signaturePath) w = w"
  using assms by (simp_all add: sign_def proc_defs)

lemma sign_key_unreadable:
  assumes "files w dataPath = Some d" "files w privateKeyPath = None"
  shows "effects (run_trace (sign N dataPath privateKeyPath signaturePath) w) =
           [FsRead dataPath, FsRead privateKeyPath, ProcessExit (- 1)]"
    and "run_outcome (sign N dataPath privateKeyPath signaturePath) w = Exit (- 1)"
    and "run_world (sign N dataPath privateKeyPath signaturePath) w = w"
  using assms by (simp_all add: sign_def proc_defs)

lemma sign_primitive_throws:
  assumes "files w dataPath = Some d" "files w privateKeyPath = Some k"
    and "sign_primitive N SIGNATURE_ALGORITHM d k (entropy w) = Inl e"
  shows "effects (run_trace (sign N dataPath privateKeyPath signaturePath) w) =
           [FsRead dataPath, FsRead privateKeyPath,
            CreateSign SIGNATURE_ALGORITHM, SignUpdate d, SignFinal k (Inl e)]"
    and "run_outcome (sign N dataPath privateKeyPath signaturePath) w = Uncaught e"
    and "run_world (sign N dataPath privateKeyPath signaturePath) w = w"
  using assms by (simp_all add: sign_def proc_defs)

lemma sign_written:
  assumes "files w dataPath = Some d" "files w privateKeyPath = Some k"
    and "sign_primitive N SIGNATURE_ALGORITHM d k (entropy w) = Inr sg"
    and "writable w signaturePath"
  shows "effects (run_trace (sign N dataPath privateKeyPath signaturePath) w) =
           [FsRead dataPath, FsRead privateKeyPath,
            CreateSign SIGNATURE_ALGORITHM, SignUpdate d, SignFinal k (Inr sg),
            FsWrite signaturePath (utf8_encode (toString_base64 sg))]"
    and "run_outcome (sign N dataPath privateKeyPath signaturePath) w = Completed"
    and "run_world (sign N dataPath privateKeyPath signaturePath) w =
           w\<lparr>files := (files w)(signaturePath \<mapsto> utf8_encode (toString_base64 sg))\<rparr>"
  using assms by (simp_all add: sign_def proc_defs)

lemma sign_write_failed:
  assumes "files w dataPath = Some d" "files w privateKeyPath = Some k"
    and "sign_primitive N SIGNATURE_ALGORITHM d k (entropy w) = Inr sg"
    and "\<not> writable w signaturePath"
  shows "effects (run_trace (sign N dataPath privateKeyPath signaturePath) w) =
           [FsRead dataPath, FsRead privateKeyPath,
            CreateSign SIGNATURE_ALGORITHM, SignUpdate d, SignFinal k (Inr sg),
            FsWriteFailed signaturePath]"
    and "run_outcome (sign N dataPath privateKeyPath signaturePath) w = Completed"
    and "run_world (sign N dataPath privateKeyPath signaturePath) w = w"
  using assms by (simp_all add: sign_def proc_defs)

lemma verify_run:
  assumes "files w dataPath = Some d" "files w signaturePath = Some s"
    and "files w publicKeyPath = Some k"
  shows "run_outcome (verify N dataPath signaturePath publicKeyPath) w =
           (case verify_primitive N SIGNATURE_ALGORITHM d k (from_base64 (utf8_toString N s)) of
              Inl e \<Rightarrow> Uncaught e
            | Inr valid \<Rightarrow> Exit (if valid then 0 else - 1))"
  using assms by (simp add: verify_def proc_defs split: sum.split)

lemma verify_unreadable:
  assumes "files w dataPath = None \<or> files w signaturePath = None \<or> files w publicKeyPath = None"
  shows "run_outcome (verify N dataPath signaturePath publicKeyPath) w = Exit (- 1)"
  using assms by (auto simp add: verify_def proc_defs split: option.split)

lemma verify_reads_signature_as_base64:
  assumes "files w dataPath = Some d" "files w publicKeyPath = Some k"
    and "files w signaturePath = Some s"
    and "files w' dataPath = Some d" "files w' publicKeyPath = Some k"
    and "files w' signaturePath = Some s'"
    and "from_base64 (utf8_toString N s') = from_base64 (utf8_toString N s)"
  shows "run_outcome (verify N dataPath signaturePath publicKeyPath) w' =
         run_outcome (verify N dataPath signaturePath publicKeyPath) w"
  using assms by (simp add: verify_run)

lemma verify_trace_algorithm:
  "CreateVerify b \<in> set (run_trace (verify N dataPath signaturePath publicKeyPath) w) \<Longrightarrow>
   b = SIGNATURE_ALGORITHM"
  by (auto simp add: verify_def proc_defs split: option.splits sum.splits)

lemma effects_mem: "\<not> is_log e \<Longrightarrow> e \<in> set (effects t) \<longleftrightarrow> e \<in> set t"
  by (simp add: effects_def)

lemma steps_effects: "steps (effects t) = steps t"
proof -
  have "\<And>e. is_step e \<Longrightarrow> \<not> is_log e"
    by (case_tac e) simp_all
  then have "filter (\<lambda>e. \<not> is_log e \<and> is_step e) t = filter is_step t"
    by (intro filter_cong) auto
  then show ?thesis by (simp add: steps_def effects_def)
qed

lemma base64_char_ascii: "(of_char (base64_char v) :: nat) < 128"
proof -
  have "unat (v AND 63) \<le> unat (63 :: byte)"
    by (rule word_and_le1 [THEN word_le_nat_alt [THEN iffD1]])
  then have b: "unat (v AND 63) < 64" by simp
  have "\<forall>n<64. (of_char (base64_table ! n) :: nat) < 128"
    by (simp add: All_less_Suc2 base64_table_def numeral_nat)
  with b show ?thesis unfolding base64_char_def by blast
qed

lemma toString_base64_ascii: "\<forall>c \<in> set (toString_base64 bs). (of_char c :: nat) < 128"
  by (induction bs rule: toString_base64.induct) (simp_all add: base64_char_ascii)

lemma utf8_encode_ascii:
  "\<forall>c \<in> set s. (of_char c :: nat) < 128 \<Longrightarrow> utf8_encode s = map of_char s"
  by (induction s) simp_all

lemma unat_of_char: "unat (of_char c :: byte) = of_char c"
proof -
  have "(of_char c :: byte) = of_nat (of_char c)"
    by (simp only: of_nat_of_char)
  then have "unat (of_char c :: byte) = of_char c mod 256"
    by (simp only: unat_of_nat) simp
  then show ?thesis by simp
qed

lemma byte_of_char_less: "(of_char c :: nat) < 128 \<Longrightarrow> (of_char c :: byte) < 128"
  by (simp add: word_less_nat_alt unat_of_char)

lemma char_of_byte_of_char: "char_of (unat (of_char c :: byte)) = c"
  by (simp add: unat_of_char)

lemma utf8_toString_ascii:
  assumes "\<forall>c \<in> set s. (of_char c :: nat) < 128"
  shows "utf8_toString N (utf8_encode s) = s"
proof -
  have "list_all (\<lambda>x. x < 128) (map of_char s :: buffer)"
    using assms by (simp add: list_all_iff byte_of_char_less)
  moreover have "map (\<lambda>x. char_of (unat x)) (map of_char s :: buffer) = s"
    by (simp add: char_of_byte_of_char comp_def)
  ultimately show ?thesis
    using assms by (simp add: utf8_toString_def utf8_encode_ascii)
qed

lemma artifact_read_back:
  "from_base64 (utf8_toString N (utf8_encode (toString_base64 sg))) = sg"
  by (simp add: utf8_toString_ascii toString_base64_ascii from_base64_def base64_values_encoded)

lemma utf8_toString_of_char:
  assumes "\<forall>c \<in> set s. (of_char c :: nat) < 128"
  shows "utf8_toString N (map of_char s) = s"
  using utf8_toString_ascii [OF assms, of N] assms by (simp add: utf8_encode_ascii)

lemma sign_cases:
  obtains (no_data) "files w dataPath = None"
  | (no_key) d where "files w dataPath = Some d" "files w privateKeyPath = None"
  | (throws) d k e where "files w dataPath = Some d" "files w privateKeyPath = Some k"
      "sign_primitive N SIGNATURE_ALGORITHM d k (entropy w) = Inl e"
  | (written) d k sg where "files w dataPath = Some d" "files w privateKeyPath = Some k"
      "sign_primitive N SIGNATURE_ALGORITHM d k (entropy w) = Inr sg" "writable w signaturePath"
  | (not_written) d k sg where "files w dataPath = Some d" "files w privateKeyPath = Some k"
      "sign_primitive N SIGNATURE_ALGORITHM d k (entropy w) = Inr sg" "\<not> writable w signaturePath"
proof (cases "files w dataPath")
  case None
  then show ?thesis by (rule no_data)
next
  case d: (Some d)
  show ?thesis
  proof (cases "files w privateKeyPath")
    case None
    with d show ?thesis by (rule no_key)
  next
    case k: (Some k)
    show ?thesis
    proof (cases "sign_primitive N SIGNATURE_ALGORITHM d k (entropy w)")
      case (Inl e)
      with d k show ?thesis by (rule throws)
    next
      case (Inr sg)
      with d k show ?thesis
        by (cases "writable w signaturePath") (auto intro: written not_written)
    qed
  qed
qed

lemma sign_uses_fixed_algorithm:
  assumes "sign_primitive N SIGNATURE_ALGORITHM = sign_primitive N' SIGNATURE_ALGORITHM"
  shows "sign N dataPath privateKeyPath signaturePath w =
         sign N' dataPath privateKeyPath signaturePath w"
  using assms by (simp add: sign_def proc_defs split: option.split sum.split)

lemma verify_uses_fixed_algorithm:
  assumes "verify_primitive N SIGNATURE_ALGORITHM = verify_primitive N' SIGNATURE_ALGORITHM"
    and "utf8_decode N = utf8_decode N'"
  shows "verify N dataPath signaturePath publicKeyPath w =
         verify N' dataPath signaturePath publicKeyPath w"
  using assms by (simp add: verify_def proc_defs utf8_toString_def split: option.split sum.split)

lemma processArgs_sign:
  "processArgs N [node, script, ''sign'', a, b, c] = sign N a b c"
  by (simp add: processArgs_def)

lemma processArgs_verify:
  "processArgs N [node, script, ''verify'', a, b, c] = verify N a b c"
  by (simp add: processArgs_def)

lemma processArgs_usage:
  "length argv \<noteq> 6 \<Longrightarrow> run_outcome (processArgs N argv) w = Exit (- 1)"
  by (simp add: processArgs_def usage_def proc_defs)




lemma sign_final_event:
  assumes "files w dataPath = Some d" "files w privateKeyPath = Some k"
  shows "SignFinal k (sign_primitive N SIGNATURE_ALGORITHM d k (entropy w)) \<in>
           set (run_trace (sign N dataPath privateKeyPath signaturePath) w)"
  using assms by (simp add: sign_def proc_defs split: sum.split)

lemma sign_final_only:
  assumes "files w dataPath = Some d" "files w privateKeyPath = Some k"
    and "SignFinal k' r \<in> set (run_trace (sign N dataPath privateKeyPath signaturePath) w)"
  shows "k' = k \<and> r = sign_primitive N SIGNATURE_ALGORITHM d k (entropy w)"
  using assms by (auto simp add: sign_def proc_defs split: sum.splits if_splits)

text \<open>The two command lines, one after the other.\<close>

lemma cli_sign_then_verify:
  assumes "key_pair N priv pub"
    and "files w dataPath = Some d"
    and "files w privateKeyPath = Some priv"
    and "files w publicKeyPath = Some pub"
    and "writable w signaturePath"
    and "signaturePath \<noteq> dataPath"
    and "signaturePath \<noteq> publicKeyPath"
  shows "exit_status (run_outcome
           (processArgs N [node, script, ''verify'', dataPath, signaturePath, publicKeyPath])
           (run_world
             (processArgs N [node, script, ''sign'', dataPath, privateKeyPath, signaturePath]) w)) = 0"
proof -
  from assms(1) obtain sg where
    sg: "sign_primitive N SIGNATURE_ALGORITHM d priv (entropy w) = Inr sg"
    and ok: "verify_primitive N SIGNATURE_ALGORITHM d pub sg = Inr True"
    unfolding key_pair_def SIGNATURE_ALGORITHM_def by blast
  let ?w = "run_world (sign N dataPath privateKeyPath signaturePath) w"
  have w': "?w = w\<lparr>files := (files w)(signaturePath \<mapsto> utf8_encode (toString_base64 sg))\<rparr>"
    using assms sg by (simp add: sign_written)
  have "files ?w dataPath = Some d" "files ?w publicKeyPath = Some pub"
    "files ?w signaturePath = Some (utf8_encode (toString_base64 sg))"
    using assms by (simp_all add: w')
  then show ?thesis
    using ok by (simp add: processArgs_sign processArgs_verify verify_run artifact_read_back)
qed

subsection \<open>The small instance\<close>

lemma toy_files:
  "files toy_world ''data'' = Some [3, 4]"
  "files toy_world ''key.pem'' = Some [1, 2]"
  "sign_primitive toy_node SIGNATURE_ALGORITHM [3, 4] [1, 2] (entropy toy_world) =
     Inr [1, 2, 3, 4]"
  by (simp_all add: toy_world_def toy_node_def toy_sign_def SIGNATURE_ALGORITHM_def)

lemma toy_writable: "writable toy_world ''data.sig''" "\<not> writable toy_world ''out/data.sig''"
  by (simp_all add: toy_world_def)

lemma signed_world_eq:
  "signed_world =
     toy_world\<lparr>files := (files toy_world)(''data.sig'' \<mapsto> utf8_encode (toString_base64 [1, 2, 3, 4]))\<rparr>"
  unfolding signed_world_def
  by (subst sign_written [where d = "[3, 4]" and k = "[1, 2]" and sg = "[1, 2, 3, 4]"])
     (simp_all add: toy_world_def toy_node_def toy_sign_def SIGNATURE_ALGORITHM_def)

lemma toy_artifact: "utf8_encode (toString_base64 [1, 2, 3, 4]) = map of_char ''AQIDBA==''"
  by (simp add: base64_char_def base64_table_def)


lemma toy_reading: "from_base64 ''AQIDBA=='' = [1, 2, 3, 4]"
  by (simp add: from_base64_def unbase64_def)

lemma toy_tampered_reading: "from_base64 ''AQIDBC=='' = [1, 2, 3, 4]"
  by (simp add: from_base64_def unbase64_def)

lemma signed_world_files:
  "files signed_world ''data'' = Some [3, 4]"
  "files signed_world ''key.crt'' = Some [2, 1]"
  "files signed_world ''data.sig'' = Some (utf8_encode (toString_base64 [1, 2, 3, 4]))"
  by (simp_all add: signed_world_eq toy_world_def del: toString_base64.simps utf8_encode.simps)


lemma toy_deterministic: "deterministic_for toy_node k"
  by (simp add: deterministic_for_def toy_node_def toy_sign_def)




lemma salted_key_pair: "key_pair salted_node [1, 2] [2, 1]"
  by (simp add: key_pair_def salted_node_def salted_sign_def salted_verify_def)

lemma salted_runs:
  "sign_primitive salted_node SIGNATURE_ALGORITHM [3, 4] [1, 2] 0 = Inr [1, 2, 0, 3, 4]"
  "sign_primitive salted_node SIGNATURE_ALGORITHM [3, 4] [1, 2] 2 = Inr [1, 2, 2, 3, 4]"
  by (simp_all add: salted_node_def salted_sign_def SIGNATURE_ALGORITHM_def)

lemma salted_artifacts:
  "utf8_encode (toString_base64 [1, 2, 0, 3, 4]) = map of_char ''AQIAAwQ=''"
  "utf8_encode (toString_base64 [1, 2, 2, 3, 4]) = map of_char ''AQICAwQ=''"
  by (simp_all add: base64_char_def base64_table_def)

section \<open>Signing and verifying\<close>

text \<open>
  C1. Sign, then verify: when the private and the public key file hold a valid RSA
  key pair and the data file holds any bytes (none at all included), running
  \<^verbatim>\<open>sign\<close> and then \<^verbatim>\<open>verify\<close> on the signature file that \<^verbatim>\<open>sign\<close> wrote ends with
  \<^verbatim>\<open>process.exit(0)\<close>: \<^verbatim>\<open>verifier.verify\<close> returned true. Both runs name the same
  algorithm, and the signature survives its way through base64 and the file.
\<close>

theorem sign_then_verify:
  assumes "key_pair N priv pub"
    and "files w dataPath = Some d"
    and "files w privateKeyPath = Some priv"
    and "files w publicKeyPath = Some pub"
    and "writable w signaturePath"
    and "signaturePath \<noteq> dataPath"
    and "signaturePath \<noteq> publicKeyPath"
  shows "run_outcome (verify N dataPath signaturePath publicKeyPath)
           (run_world (sign N dataPath privateKeyPath signaturePath) w) = Exit 0"
proof -
  from assms(1) obtain sg where
    sg: "sign_primitive N SIGNATURE_ALGORITHM d priv (entropy w) = Inr sg"
    and ok: "verify_primitive N SIGNATURE_ALGORITHM d pub sg = Inr True"
    unfolding key_pair_def SIGNATURE_ALGORITHM_def by blast
  let ?w = "run_world (sign N dataPath privateKeyPath signaturePath) w"
  have w': "?w = w\<lparr>files := (files w)(signaturePath \<mapsto> utf8_encode (toString_base64 sg))\<rparr>"
    using assms sg by (simp add: sign_written)
  have "files ?w dataPath = Some d" "files ?w publicKeyPath = Some pub"
    "files ?w signaturePath = Some (utf8_encode (toString_base64 sg))"
    using assms by (simp_all add: w')
  then show ?thesis
    using ok by (simp add: verify_run artifact_read_back)
qed

theorem sign_then_verify_witness:
  "key_pair toy_node [1, 2] [2, 1] \<and>
   run_outcome (verify toy_node ''data'' ''data.sig'' ''key.crt'')
     (run_world (sign toy_node ''data'' ''key.pem'' ''data.sig'') toy_world) = Exit 0"
proof -
  have kp: "key_pair toy_node [1, 2] [2, 1]"
    by (simp add: key_pair_def toy_node_def toy_sign_def toy_verify_def)
  show ?thesis
    using kp sign_then_verify [OF kp, of toy_world "''data''" "[3, 4]" "''key.pem''" "''key.crt''" "''data.sig''"]
    by (simp add: toy_world_def)
qed

section \<open>The verdict of verify\<close>

text \<open>
  C4. \<^verbatim>\<open>verify\<close> ends with exit status 0 if and only if all three files were read
  and \<^verbatim>\<open>verifier.verify\<close> returned true. In every other case (the verdict is
  false, the primitive throws, a file cannot be read) the status is not 0.
\<close>

theorem verify_exit_status:
  "exit_status (run_outcome (verify N dataPath signaturePath publicKeyPath) w) = 0 \<longleftrightarrow>
     (\<exists>d s k. files w dataPath = Some d \<and> files w signaturePath = Some s \<and>
        files w publicKeyPath = Some k \<and>
        verify_primitive N SIGNATURE_ALGORITHM d k (from_base64 (utf8_toString N s)) = Inr True)"
proof (cases "files w dataPath = None \<or> files w signaturePath = None \<or> files w publicKeyPath = None")
  case True
  then show ?thesis
    by (auto simp add: verify_unreadable)
next
  case False
  then obtain d s k where f: "files w dataPath = Some d" "files w signaturePath = Some s"
    "files w publicKeyPath = Some k" by auto
  show ?thesis
    by (simp add: f verify_run split: sum.split)
qed

theorem verify_exit_status_witness:
  "exit_status (run_outcome (verify toy_node ''data'' ''data.sig'' ''key.crt'') signed_world) = 0 \<and>
   exit_status (run_outcome (verify toy_node ''data'' ''data.sig'' ''key.crt'') toy_world) \<noteq> 0"
proof -
  have a: "\<exists>d s k. files signed_world ''data'' = Some d \<and>
        files signed_world ''data.sig'' = Some s \<and> files signed_world ''key.crt'' = Some k \<and>
        verify_primitive toy_node SIGNATURE_ALGORITHM d k
          (from_base64 (utf8_toString toy_node s)) = Inr True"
    by (simp add: signed_world_files artifact_read_back toy_node_def toy_verify_def
          SIGNATURE_ALGORITHM_def del: toString_base64.simps utf8_encode.simps)
  have b: "\<not> (\<exists>d s k. files toy_world ''data'' = Some d \<and>
        files toy_world ''data.sig'' = Some s \<and> files toy_world ''key.crt'' = Some k \<and>
        verify_primitive toy_node SIGNATURE_ALGORITHM d k
          (from_base64 (utf8_toString toy_node s)) = Inr True)"
    by (simp add: toy_world_def)
  show ?thesis
    using a b verify_exit_status [of toy_node "''data''" "''data.sig''" "''key.crt''" signed_world]
      verify_exit_status [of toy_node "''data''" "''data.sig''" "''key.crt''" toy_world]
    by blast
qed



text \<open>
  The verdict follows the reading, not the text: in the small instance \<^verbatim>\<open>sign\<close>
  writes \<^verbatim>\<open>AQIDBA==\<close>; flipping bit 1 of its byte 5 gives \<^verbatim>\<open>AQIDBC==\<close>, which reads as
  the same four bytes, and \<^verbatim>\<open>verify\<close> ends with \<^verbatim>\<open>process.exit(0)\<close> on both.
\<close>

lemma same_reading_same_verdict_example:
  "files signed_world ''data.sig'' = Some (map of_char ''AQIDBA=='') \<and>
   files (tamper ''data.sig'' 5 1 signed_world) ''data.sig'' = Some (map of_char ''AQIDBC=='') \<and>
   run_outcome (verify toy_node ''data'' ''data.sig'' ''key.crt'') signed_world = Exit 0 \<and>
   run_outcome (verify toy_node ''data'' ''data.sig'' ''key.crt'')
     (tamper ''data.sig'' 5 1 signed_world) = Exit 0"
proof -
  have a: "files signed_world ''data.sig'' = Some (map of_char ''AQIDBA=='')"
    by (simp add: signed_world_eq toy_artifact del: toString_base64.simps utf8_encode.simps)
  have b: "files (tamper ''data.sig'' 5 1 signed_world) ''data.sig'' =
      Some (map of_char ''AQIDBC=='')"
    by (simp add: tamper_def a flip_bit_eq_xor)
  have o: "files (tamper ''data.sig'' 5 1 signed_world) ''data'' = Some [3, 4]"
    "files (tamper ''data.sig'' 5 1 signed_world) ''key.crt'' = Some [2, 1]"
    by (simp_all add: tamper_def a) (simp_all add: signed_world_eq toy_world_def)
  have c: "run_outcome (verify toy_node ''data'' ''data.sig'' ''key.crt'') signed_world = Exit 0"
    by (subst verify_run [OF signed_world_files(1) a signed_world_files(2)])
       (simp add: utf8_toString_of_char toy_reading toy_node_def toy_verify_def
          SIGNATURE_ALGORITHM_def del: list.map)
  have d: "run_outcome (verify toy_node ''data'' ''data.sig'' ''key.crt'')
     (tamper ''data.sig'' 5 1 signed_world) = Exit 0"
    by (subst verify_run [OF o(1) b o(2)])
       (simp add: utf8_toString_of_char toy_tampered_reading toy_node_def toy_verify_def
          SIGNATURE_ALGORITHM_def del: list.map)
  show ?thesis using a b c d by blast
qed



section \<open>The exit status of sign\<close>

text \<open>
  C8 does not hold of the script. The callback of \<^verbatim>\<open>fs.writeFile\<close> is the one
  callback that does not pass its \<^verbatim>\<open>err\<close> to \<^verbatim>\<open>handleError\<close>: when the signature
  file cannot be written, \<^verbatim>\<open>sign\<close> still prints that the signature was saved, runs
  to its end, and the process ends with status 0 and no file written.
\<close>

theorem write_failure_not_reported:
  assumes "files w dataPath = Some d"
    and "files w privateKeyPath = Some k"
    and "sign_primitive N SIGNATURE_ALGORITHM d k (entropy w) = Inr sg"
    and "\<not> writable w signaturePath"
  shows "FsWriteFailed signaturePath \<in>
           set (run_trace (sign N dataPath privateKeyPath signaturePath) w) \<and>
         exit_status (run_outcome (sign N dataPath privateKeyPath signaturePath) w) = 0 \<and>
         run_world (sign N dataPath privateKeyPath signaturePath) w = w"
proof -
  have "FsWriteFailed signaturePath \<in>
     set (effects (run_trace (sign N dataPath privateKeyPath signaturePath) w))"
    by (simp add: sign_write_failed [OF assms])
  then have "FsWriteFailed signaturePath \<in>
     set (run_trace (sign N dataPath privateKeyPath signaturePath) w)"
    by (simp add: effects_mem)
  then show ?thesis
    by (simp add: sign_write_failed [OF assms])
qed

theorem write_failure_not_reported_witness:
  "FsWriteFailed ''out/data.sig'' \<in>
     set (run_trace (sign toy_node ''data'' ''key.pem'' ''out/data.sig'') toy_world) \<and>
   exit_status (run_outcome (sign toy_node ''data'' ''key.pem'' ''out/data.sig'') toy_world) = 0 \<and>
   run_world (sign toy_node ''data'' ''key.pem'' ''out/data.sig'') toy_world = toy_world"
  by (rule write_failure_not_reported [OF toy_files toy_writable(2)])

section \<open>The algorithm identifier\<close>

text \<open>
  C6. Whatever the files hold, the identifier that \<^verbatim>\<open>sign\<close> gives to
  \<^verbatim>\<open>crypto.createSign\<close> and the identifier that \<^verbatim>\<open>verify\<close> gives to
  \<^verbatim>\<open>crypto.createVerify\<close> are the same constant, \<^verbatim>\<open>'RSA-SHA256'\<close>: it does not
  come from the keys, and (see C7) it is not written to the signature file.
\<close>

theorem same_algorithm_identifier:
  assumes "CreateSign a \<in> set (run_trace (sign N dataPath privateKeyPath signaturePath) w)"
    and "CreateVerify b \<in> set (run_trace (verify N' dataPath' signaturePath' publicKeyPath') w')"
  shows "a = b \<and> a = SIGNATURE_ALGORITHM \<and> SIGNATURE_ALGORITHM = ''RSA-SHA256''"
proof -
  have "CreateSign a \<in> set (effects (run_trace (sign N dataPath privateKeyPath signaturePath) w))"
    using assms(1) by (simp add: effects_mem)
  then have "a = SIGNATURE_ALGORITHM"
    by (cases rule: sign_cases [where w = w and dataPath = dataPath and privateKeyPath = privateKeyPath
          and N = N and signaturePath = signaturePath])
       (simp_all add: sign_data_unreadable sign_key_unreadable sign_primitive_throws
          sign_written sign_write_failed)
  moreover have "b = SIGNATURE_ALGORITHM"
    using assms(2) by (rule verify_trace_algorithm)
  ultimately show ?thesis by (simp add: SIGNATURE_ALGORITHM_def)
qed

theorem same_algorithm_identifier_witness:
  "CreateSign SIGNATURE_ALGORITHM \<in>
     set (run_trace (sign toy_node ''data'' ''key.pem'' ''data.sig'') toy_world) \<and>
   CreateVerify SIGNATURE_ALGORITHM \<in>
     set (run_trace (verify toy_node ''data'' ''data.sig'' ''key.crt'') signed_world) \<and>
   SIGNATURE_ALGORITHM = ''RSA-SHA256''"
proof -
  have "CreateSign SIGNATURE_ALGORITHM \<in>
     set (effects (run_trace (sign toy_node ''data'' ''key.pem'' ''data.sig'') toy_world))"
    by (simp add: sign_written [OF toy_files toy_writable(1)])
  then have a: "CreateSign SIGNATURE_ALGORITHM \<in>
     set (run_trace (sign toy_node ''data'' ''key.pem'' ''data.sig'') toy_world)"
    by (simp add: effects_mem)
  have b: "CreateVerify SIGNATURE_ALGORITHM \<in>
     set (run_trace (verify toy_node ''data'' ''data.sig'' ''key.crt'') signed_world)"
    by (simp add: verify_def proc_defs signed_world_files split: sum.split
          del: toString_base64.simps utf8_encode.simps)
  show ?thesis
    using a b same_algorithm_identifier [OF a b] by simp
qed

section \<open>The signature file\<close>

text \<open>
  C7. What \<^verbatim>\<open>sign\<close> writes to the signature file is the base64 text of the raw
  signature, one byte for each character of it, and nothing more: no framing, no
  newline at the end, no algorithm identifier. It is written to the signature path
  and no other file changes.
\<close>

theorem artifact_is_base64_only:
  assumes "FsWrite p bytes \<in> set (run_trace (sign N dataPath privateKeyPath signaturePath) w)"
  shows "\<exists>d k sg. files w dataPath = Some d \<and> files w privateKeyPath = Some k \<and>
           sign_primitive N SIGNATURE_ALGORITHM d k (entropy w) = Inr sg \<and>
           p = signaturePath \<and> bytes = map of_char (toString_base64 sg) \<and>
           files (run_world (sign N dataPath privateKeyPath signaturePath) w) =
             (files w)(signaturePath \<mapsto> bytes)"
proof -
  have m: "FsWrite p bytes \<in> set (effects (run_trace (sign N dataPath privateKeyPath signaturePath) w))"
    using assms(1) by (simp add: effects_mem)
  show ?thesis
  proof (cases rule: sign_cases [where w = w and dataPath = dataPath and privateKeyPath = privateKeyPath
          and N = N and signaturePath = signaturePath])
    case (written d k sg)
    with m have "p = signaturePath" "bytes = utf8_encode (toString_base64 sg)"
      by (simp_all add: sign_written)
    then show ?thesis
      using written by (simp add: sign_written utf8_encode_ascii toString_base64_ascii)
  qed (use m in \<open>simp_all add: sign_data_unreadable sign_key_unreadable sign_primitive_throws
          sign_write_failed\<close>)
qed

theorem artifact_is_base64_only_witness:
  "FsWrite ''data.sig'' (map of_char ''AQIDBA=='') \<in>
     set (run_trace (sign toy_node ''data'' ''key.pem'' ''data.sig'') toy_world) \<and>
   files (run_world (sign toy_node ''data'' ''key.pem'' ''data.sig'') toy_world) =
     (files toy_world)(''data.sig'' \<mapsto> map of_char ''AQIDBA=='')"
proof -
  have "FsWrite ''data.sig'' (utf8_encode (toString_base64 [1, 2, 3, 4])) \<in>
     set (effects (run_trace (sign toy_node ''data'' ''key.pem'' ''data.sig'') toy_world))"
    by (simp add: sign_written [OF toy_files toy_writable(1)]
          del: toString_base64.simps utf8_encode.simps)
  then have a: "FsWrite ''data.sig'' (map of_char ''AQIDBA=='') \<in>
     set (run_trace (sign toy_node ''data'' ''key.pem'' ''data.sig'') toy_world)"
    by (simp add: effects_mem toy_artifact del: toString_base64.simps utf8_encode.simps list.map)
  show ?thesis
    using a artifact_is_base64_only [OF a] by blast
qed

section \<open>The order of the steps of sign\<close>

text \<open>
  C9. In every run of \<^verbatim>\<open>sign\<close> the reads and the signing steps come in one order:
  the data file is read; then, if that succeeded, the private key file is read;
  then, if that succeeded too, the signature is computed, over the bytes of the
  data file and with the bytes of the key file. Nothing is signed before both
  reads have completed.
\<close>

theorem sign_causal_order:
  "steps (run_trace (sign N dataPath privateKeyPath signaturePath) w) = [FsRead dataPath] \<or>
   steps (run_trace (sign N dataPath privateKeyPath signaturePath) w) =
     [FsRead dataPath, FsRead privateKeyPath] \<or>
   (\<exists>d k r. files w dataPath = Some d \<and> files w privateKeyPath = Some k \<and>
      steps (run_trace (sign N dataPath privateKeyPath signaturePath) w) =
        [FsRead dataPath, FsRead privateKeyPath,
         CreateSign SIGNATURE_ALGORITHM, SignUpdate d, SignFinal k r])"
proof -
  have "steps (run_trace (sign N dataPath privateKeyPath signaturePath) w) =
        steps (effects (run_trace (sign N dataPath privateKeyPath signaturePath) w))"
    by (simp add: steps_effects)
  then show ?thesis
    by (cases rule: sign_cases [where w = w and dataPath = dataPath and privateKeyPath = privateKeyPath
          and N = N and signaturePath = signaturePath])
       (simp_all add: sign_data_unreadable sign_key_unreadable sign_primitive_throws
          sign_written sign_write_failed steps_def)
qed

theorem sign_causal_order_witness:
  "steps (run_trace (sign toy_node ''data'' ''key.pem'' ''data.sig'') toy_world) =
     [FsRead ''data'', FsRead ''key.pem'',
      CreateSign SIGNATURE_ALGORITHM, SignUpdate [3, 4], SignFinal [1, 2] (Inr [1, 2, 3, 4])]"
proof -
  have "steps (effects (run_trace (sign toy_node ''data'' ''key.pem'' ''data.sig'') toy_world)) =
     [FsRead ''data'', FsRead ''key.pem'',
      CreateSign SIGNATURE_ALGORITHM, SignUpdate [3, 4], SignFinal [1, 2] (Inr [1, 2, 3, 4])]"
    by (simp add: sign_written [OF toy_files toy_writable(1)] steps_def
          del: toString_base64.simps utf8_encode.simps)
  then show ?thesis
    using sign_causal_order [of toy_node "''data''" "''key.pem''" "''data.sig''" toy_world]
    by (simp add: steps_effects)
qed

section \<open>Determinism of sign\<close>

text \<open>
  C10, as it is stated, does not hold of the script: \<^verbatim>\<open>sign\<close> hands the key file to
  \<^verbatim>\<open>signer.sign\<close> as it is, and whether signing under \<^verbatim>\<open>'RSA-SHA256'\<close> uses
  randomness is the key's and the primitive's matter. With the salted stand-in, a
  valid scheme, two runs on the same data and the same private key that differ in
  the randomness only give different raw signatures and write different files.
\<close>

theorem salted_signatures_differ:
  "key_pair salted_node [1, 2] [2, 1] \<and>
   files toy_world ''data'' = Some [3, 4] \<and>
   files (toy_world\<lparr>entropy := 2\<rparr>) ''data'' = Some [3, 4] \<and>
   files toy_world ''key.pem'' = Some [1, 2] \<and>
   files (toy_world\<lparr>entropy := 2\<rparr>) ''key.pem'' = Some [1, 2] \<and>
   SignFinal [1, 2] (Inr [1, 2, 0, 3, 4]) \<in>
     set (run_trace (sign salted_node ''data'' ''key.pem'' ''data.sig'') toy_world) \<and>
   SignFinal [1, 2] (Inr [1, 2, 2, 3, 4]) \<in>
     set (run_trace (sign salted_node ''data'' ''key.pem'' ''data.sig'')
            (toy_world\<lparr>entropy := 2\<rparr>)) \<and>
   files (run_world (sign salted_node ''data'' ''key.pem'' ''data.sig'') toy_world)
     ''data.sig'' = Some (map of_char ''AQIAAwQ='') \<and>
   files (run_world (sign salted_node ''data'' ''key.pem'' ''data.sig'')
            (toy_world\<lparr>entropy := 2\<rparr>)) ''data.sig'' = Some (map of_char ''AQICAwQ='')"
proof -
  let ?w = "toy_world\<lparr>entropy := 2\<rparr>"
  have f: "files toy_world ''data'' = Some [3, 4]" "files toy_world ''key.pem'' = Some [1, 2]"
    and f': "files ?w ''data'' = Some [3, 4]" "files ?w ''key.pem'' = Some [1, 2]"
    and e: "entropy toy_world = 0" "entropy ?w = 2"
    and wr: "writable toy_world ''data.sig''" "writable ?w ''data.sig''"
    by (simp_all add: toy_world_def)
  have s: "sign_primitive salted_node SIGNATURE_ALGORITHM [3, 4] [1, 2] (entropy toy_world) =
      Inr [1, 2, 0, 3, 4]"
    "sign_primitive salted_node SIGNATURE_ALGORITHM [3, 4] [1, 2] (entropy ?w) =
      Inr [1, 2, 2, 3, 4]"
    by (simp_all only: e salted_runs)
  have t: "SignFinal [1, 2] (Inr [1, 2, 0, 3, 4]) \<in>
     set (run_trace (sign salted_node ''data'' ''key.pem'' ''data.sig'') toy_world)"
    using sign_final_event [OF f, of salted_node "''data.sig''"] by (simp only: s)
  have t': "SignFinal [1, 2] (Inr [1, 2, 2, 3, 4]) \<in>
     set (run_trace (sign salted_node ''data'' ''key.pem'' ''data.sig'') ?w)"
    using sign_final_event [OF f', of salted_node "''data.sig''"] by (simp only: s)
  have a: "files (run_world (sign salted_node ''data'' ''key.pem'' ''data.sig'') toy_world)
     ''data.sig'' = Some (map of_char ''AQIAAwQ='')"
    by (simp add: sign_written [OF f s(1) wr(1)] salted_artifacts
          del: toString_base64.simps utf8_encode.simps list.map)
  have a': "files (run_world (sign salted_node ''data'' ''key.pem'' ''data.sig'') ?w)
     ''data.sig'' = Some (map of_char ''AQICAwQ='')"
    by (simp add: sign_written [OF f' s(2) wr(2)] salted_artifacts
          del: toString_base64.simps utf8_encode.simps list.map)
  show ?thesis
    using salted_key_pair f f' t t' a a' by blast
qed

text \<open>
  C10, amended. In two runs of \<^verbatim>\<open>sign\<close> on the same data and the same private key,
  the raw signature of each run is what the primitive returns on the run's
  randomness, and the two runs do the same (the same events in the same order,
  among them the raw signature and the bytes written) exactly when the primitive
  returns the same for both. So they do the same, and end the same, whenever
  signing with that key is deterministic. The script adds no randomness, time or
  state of its own.
\<close>

theorem sign_repeats_primitive:
  assumes "files w dataPath = Some d" "files w' dataPath = Some d"
    and "files w privateKeyPath = Some k" "files w' privateKeyPath = Some k"
    and "writable w signaturePath = writable w' signaturePath"
  shows "SignFinal k (sign_primitive N SIGNATURE_ALGORITHM d k (entropy w)) \<in>
           set (run_trace (sign N dataPath privateKeyPath signaturePath) w) \<and>
         SignFinal k (sign_primitive N SIGNATURE_ALGORITHM d k (entropy w')) \<in>
           set (run_trace (sign N dataPath privateKeyPath signaturePath) w') \<and>
         (run_trace (sign N dataPath privateKeyPath signaturePath) w =
            run_trace (sign N dataPath privateKeyPath signaturePath) w' \<longleftrightarrow>
          sign_primitive N SIGNATURE_ALGORITHM d k (entropy w) =
            sign_primitive N SIGNATURE_ALGORITHM d k (entropy w')) \<and>
         (deterministic_for N k \<longrightarrow>
            run_trace (sign N dataPath privateKeyPath signaturePath) w =
              run_trace (sign N dataPath privateKeyPath signaturePath) w' \<and>
            run_outcome (sign N dataPath privateKeyPath signaturePath) w =
              run_outcome (sign N dataPath privateKeyPath signaturePath) w')"
proof -
  let ?r = "sign_primitive N SIGNATURE_ALGORITHM d k (entropy w)"
  let ?r' = "sign_primitive N SIGNATURE_ALGORITHM d k (entropy w')"
  note ev = sign_final_event [OF assms(1) assms(3), of N signaturePath]
  note ev' = sign_final_event [OF assms(2) assms(4), of N signaturePath]
  have same: "?r = ?r' \<Longrightarrow>
      run_trace (sign N dataPath privateKeyPath signaturePath) w =
        run_trace (sign N dataPath privateKeyPath signaturePath) w' \<and>
      run_outcome (sign N dataPath privateKeyPath signaturePath) w =
        run_outcome (sign N dataPath privateKeyPath signaturePath) w'"
    using assms by (simp add: sign_def proc_defs split: sum.split)
  have diff: "?r = ?r'"
    if eq: "run_trace (sign N dataPath privateKeyPath signaturePath) w =
        run_trace (sign N dataPath privateKeyPath signaturePath) w'"
  proof -
    have "SignFinal k ?r \<in> set (run_trace (sign N dataPath privateKeyPath signaturePath) w')"
      using ev eq by simp
    then show "?r = ?r'"
      using sign_final_only [OF assms(2) assms(4)] by blast
  qed
  have det: "deterministic_for N k \<Longrightarrow> ?r = ?r'"
    by (simp add: deterministic_for_def SIGNATURE_ALGORITHM_def)
  show ?thesis using ev ev' same diff det by blast
qed

theorem sign_repeats_primitive_witness:
  "deterministic_for toy_node [1, 2] \<and>
   run_trace (sign toy_node ''data'' ''key.pem'' ''data.sig'') toy_world =
     run_trace (sign toy_node ''data'' ''key.pem'' ''data.sig'') (toy_world\<lparr>entropy := 7\<rparr>) \<and>
   run_outcome (sign toy_node ''data'' ''key.pem'' ''data.sig'') toy_world =
     run_outcome (sign toy_node ''data'' ''key.pem'' ''data.sig'') (toy_world\<lparr>entropy := 7\<rparr>)"
proof -
  have f: "files toy_world ''data'' = Some [3, 4]"
    "files (toy_world\<lparr>entropy := 7\<rparr>) ''data'' = Some [3, 4]"
    "files toy_world ''key.pem'' = Some [1, 2]"
    "files (toy_world\<lparr>entropy := 7\<rparr>) ''key.pem'' = Some [1, 2]"
    "writable toy_world ''data.sig'' = writable (toy_world\<lparr>entropy := 7\<rparr>) ''data.sig''"
    by (simp_all add: toy_world_def)
  show ?thesis
    using toy_deterministic [of "[1, 2]"] sign_repeats_primitive [OF f, of toy_node]
    by blast
qed

end
